theory Spec2Isabelle
  imports Main "HOL-Library.Word"
begin

unbundle bit_operations_syntax

section \<open>Machine types\<close>

text \<open>
  The sample targets 32-bit ARM microcontrollers: \<open>size_t\<close>, \<open>uint32_t\<close> and
  addresses are 32-bit words whose arithmetic wraps around. A \<open>float\<close> is only ever
  copied by the code, never computed with, so it is its 32-bit pattern.
\<close>

type_synonym size_t = "32 word"
type_synonym ptr = "32 word"
type_synonym float = "32 word"

definition nullptr :: ptr where
  [simp]: "nullptr = 0"

section \<open>The base class \<open>MemoryAllocator\<close> of the inference runtime\<close>

text \<open>
  A C++ member \<open>name_\<close> is the field \<open>name\<close> here (\<open>used_\<close> is \<open>used\<close>), since an
  identifier cannot end with an underscore; the base class's \<open>begin_\<close>, \<open>end_\<close>,
  \<open>cur_\<close> and \<open>size_\<close> are \<open>m_begin\<close>, \<open>m_end\<close>, \<open>m_cur\<close> and \<open>m_size\<close>.
\<close>

record MemoryAllocator =
  m_begin :: ptr
  m_end :: ptr
  m_cur :: ptr
  m_size :: "32 word"

text \<open>
  Modelled from the spec: the constructor of the runtime's base class
  \<open>MemoryAllocator(size, base_address)\<close>, whose source is not part of the repository:
  an allocator over a caller-supplied byte region with a base address and a total
  capacity.
\<close>

definition MemoryAllocator_new :: "32 word \<Rightarrow> ptr \<Rightarrow> MemoryAllocator" where
  "MemoryAllocator_new sz base_address =
     \<lparr>m_begin = base_address, m_end = base_address + sz, m_cur = base_address, m_size = sz\<rparr>"

definition MemoryAllocator_size :: "MemoryAllocator \<Rightarrow> 32 word" where
  "MemoryAllocator_size m = m_size m"

definition isPowerOf2 :: "size_t \<Rightarrow> bool" where
  "isPowerOf2 a \<longleftrightarrow> a \<in> set (map (\<lambda>k. 2 ^ k) [0..<32])"

definition alignPointer :: "nat \<Rightarrow> nat \<Rightarrow> nat" where
  "alignPointer p a = ((p + a - 1) div a) * a"

text \<open>
  Modelled from the spec: \<open>MemoryAllocator::allocate(size, alignment)\<close> of the runtime's
  base class, whose source is not part of the repository. The cursor is rounded up to
  the alignment and advanced by \<open>size\<close>, and the aligned pre-advance address is
  returned; the call fails, returning the null pointer and changing nothing, when the
  remaining capacity cannot satisfy the aligned request. The alignment has to be a
  power of two; a request with another alignment is not satisfiable and fails.
  Addresses are compared as natural numbers, so that no request succeeds by wrapping
  around the address space.
\<close>

definition MemoryAllocator_allocate ::
  "size_t \<Rightarrow> size_t \<Rightarrow> MemoryAllocator \<Rightarrow> ptr \<times> MemoryAllocator" where
  "MemoryAllocator_allocate sz alignment m =
     (let start = alignPointer (unat (m_cur m)) (unat alignment);
          e = start + unat sz
      in if \<not> isPowerOf2 alignment \<or> unat (m_end m) < e then (nullptr, m)
         else (of_nat start, m\<lparr>m_cur := of_nat e\<rparr>))"

section \<open>\<open>ETMemoryAllocator\<close> (et_memory_allocator.hpp)\<close>

record ETMemoryAllocator =
  base :: MemoryAllocator
  used :: size_t

definition ETMemoryAllocator_new :: "32 word \<Rightarrow> ptr \<Rightarrow> ETMemoryAllocator" where
  "ETMemoryAllocator_new sz base_address =
     \<lparr>base = MemoryAllocator_new sz base_address, used = 0\<rparr>"

text \<open>
  \<open>ETMemoryAllocator::allocate\<close>. Its first argument stands for the base class's
  \<open>MemoryAllocator::allocate\<close>, which the override calls first and which belongs to
  the external runtime: the override is modelled over any behaviour of that call.
\<close>

definition allocate ::
  "(size_t \<Rightarrow> size_t \<Rightarrow> MemoryAllocator \<Rightarrow> ptr \<times> MemoryAllocator) \<Rightarrow>
   size_t \<Rightarrow> size_t \<Rightarrow> ETMemoryAllocator \<Rightarrow> ptr \<times> ETMemoryAllocator" where
  "allocate base_allocate sz alignment a =
     (let (ret, b) = base_allocate sz alignment (base a);
          a1 = a\<lparr>base := b\<rparr>
      in if ret \<noteq> nullptr then
           if sz AND (alignment - 1) = 0 then (ret, a1\<lparr>used := used a1 + sz\<rparr>)
           else (ret, a1\<lparr>used := (used a1 AND NOT (alignment - 1)) + alignment + sz\<rparr>)
         else (ret, a1))"

definition used_size :: "ETMemoryAllocator \<Rightarrow> size_t" where
  "used_size a = used a"

definition free_size :: "ETMemoryAllocator \<Rightarrow> size_t" where
  "free_size a = MemoryAllocator_size (base a) - used a"

text \<open>A sequence of \<open>allocate\<close> calls, each given as (size, alignment), on one allocator.\<close>

fun allocate_all ::
  "(size_t \<Rightarrow> size_t \<Rightarrow> MemoryAllocator \<Rightarrow> ptr \<times> MemoryAllocator) \<Rightarrow>
   (size_t \<times> size_t) list \<Rightarrow> ETMemoryAllocator \<Rightarrow> ETMemoryAllocator" where
  "allocate_all base_allocate [] a = a"
| "allocate_all base_allocate ((sz, alignment) # reqs) a =
     allocate_all base_allocate reqs (snd (allocate base_allocate sz alignment a))"

text \<open>Rounding an unsigned value down and up to a multiple of \<open>a\<close>.\<close>

definition round_down :: "size_t \<Rightarrow> size_t \<Rightarrow> size_t" where
  "round_down u a = of_nat ((unat u div unat a) * unat a)"

definition round_up :: "size_t \<Rightarrow> size_t \<Rightarrow> size_t" where
  "round_up u a = of_nat (((unat u + unat a - 1) div unat a) * unat a)"

text \<open>
  The accounting rule as the specification words it: a size that is a multiple of the
  alignment is added to the counter; otherwise the counter is rounded up to the
  alignment boundary and a full alignment unit plus the size is added.
\<close>

definition spec_used_after :: "size_t \<Rightarrow> size_t \<Rightarrow> size_t \<Rightarrow> size_t" where
  "spec_used_after u sz alignment =
     (if unat alignment dvd unat sz then u + sz
      else round_up u alignment + alignment + sz)"

text \<open>
  The invariant of an \<open>ETMemoryAllocator\<close> whose requests all have a size that is a
  multiple of the alignment: the cursor is inside the pool and the counter is at most
  the number of bytes the cursor has advanced.
\<close>

definition alloc_inv :: "ETMemoryAllocator \<Rightarrow> bool" where
  "alloc_inv a \<longleftrightarrow>
     unat (m_cur (base a)) \<le> unat (m_end (base a)) \<and>
     unat (m_begin (base a)) + unat (used a) \<le> unat (m_cur (base a))"

section \<open>Values exchanged with the inference runtime\<close>

text \<open>
  The runtime's \<open>Error\<close> enumeration. The loader names \<open>Ok\<close>, \<open>InvalidState\<close>,
  \<open>InvalidArgument\<close> and \<open>MemoryAllocationFailed\<close>; every other code of the external
  layers is passed through without being looked at and is \<open>Opaque\<close> here. A failed
  \<open>Result<T>\<close> carries a code other than \<open>Ok\<close>, so the failure codes are a type of
  their own: \<open>Error::InvalidState\<close> is \<open>Fail InvalidState\<close>, and \<open>Result<T>\<close> is
  \<open>Code + T\<close>.
\<close>

datatype Code = InvalidState | InvalidArgument | MemoryAllocationFailed | Opaque nat

datatype Error = Ok | Fail Code

record TensorInfo =
  sizes :: "32 word list"
  dim_order :: "8 word list"
  nbytes :: size_t

text \<open>
  \<open>MethodMeta\<close>: the declarations of one method of a program. The runtime reports a
  planned buffer's size as a 64-bit integer.
\<close>

record MethodMeta =
  num_memory_planned_buffers :: size_t
  memory_planned_buffer_size :: "size_t \<Rightarrow> Code + 64 word"
  input_tensor_meta :: "size_t \<Rightarrow> Code + TensorInfo"

datatype ScalarType = Float

text \<open>
  \<open>TensorImpl\<close>: a view over a buffer of floats. \<open>t_data\<close> is the contents of the memory
  the data pointer refers to.
\<close>

record TensorImpl =
  t_type :: ScalarType
  t_dim :: size_t
  t_sizes :: "32 word list"
  t_data :: "float list"
  t_dim_order :: "8 word list"

datatype EValue = TensorValue TensorImpl | OtherValue

text \<open>
  A \<open>Method\<close>: its declarations, which no operation changes, and the state the runtime
  keeps for it (bound inputs, outputs), of a type \<open>'m\<close> the loader never inspects.
\<close>

record 'm Method =
  method_meta :: MethodMeta
  m_state :: "'m"

text \<open>
  The operations of the external runtime that the loader calls. Their sources are not
  part of the repository, so each is a parameter:
  \<^item> \<open>kDefaultAlignment\<close> and \<open>rt_allocate\<close>: the default alignment and the method
    \<open>allocate\<close> of the base class \<open>MemoryAllocator\<close>;
  \<^item> \<open>rt_Program_load\<close>: \<open>Program::load\<close> on the bytes of the data loader;
  \<^item> \<open>rt_method_meta\<close>: \<open>Program::method_meta(name)\<close>;
  \<^item> \<open>rt_load_method\<close>: \<open>Program::load_method(name, memory_manager)\<close>, which is
    given the planned spans and the method and temp allocators of the memory manager
    and may allocate from them;
  \<^item> \<open>rt_set_input\<close>, \<open>rt_execute\<close>, \<open>rt_get_output\<close>: the operations of
    \<open>Method\<close>; executing may allocate from the two allocators;
  \<^item> \<open>rt_numel\<close>: \<open>Tensor::numel()\<close>.
\<close>

record ('p, 'm) Runtime =
  kDefaultAlignment :: size_t
  rt_allocate :: "size_t \<Rightarrow> size_t \<Rightarrow> MemoryAllocator \<Rightarrow> ptr \<times> MemoryAllocator"
  rt_Program_load :: "8 word list \<Rightarrow> Code + 'p"
  rt_method_meta :: "'p \<Rightarrow> string \<Rightarrow> Code + MethodMeta"
  rt_load_method :: "'p \<Rightarrow> string \<Rightarrow> (ptr \<times> size_t) list \<Rightarrow>
     ETMemoryAllocator \<times> ETMemoryAllocator \<Rightarrow>
     (Code + 'm Method) \<times> ETMemoryAllocator \<times> ETMemoryAllocator"
  rt_set_input :: "'m Method \<Rightarrow> EValue \<Rightarrow> size_t \<Rightarrow> Error \<times> 'm"
  rt_execute :: "'m Method \<Rightarrow> ETMemoryAllocator \<times> ETMemoryAllocator \<Rightarrow>
     Error \<times> 'm \<times> ETMemoryAllocator \<times> ETMemoryAllocator"
  rt_get_output :: "'m Method \<Rightarrow> size_t \<Rightarrow> EValue"
  rt_numel :: "TensorImpl \<Rightarrow> size_t"

text \<open>
  What the build fixes: the two pool sizes (Kconfig options, 16 KB and 2 KB by default),
  the addresses of the two static pools, and the embedded model \<open>model_pte\<close>.
\<close>

record Build =
  METHOD_ALLOCATOR_POOL_SIZE :: "32 word"
  TEMP_ALLOCATOR_POOL_SIZE :: "32 word"
  method_allocation_pool :: ptr
  temp_allocation_pool :: ptr
  model_pte :: "8 word list"

section \<open>\<open>ProgramLoader\<close> (program_loader.h, program_loader.cpp)\<close>

text \<open>
  The history of the state-changing calls into the runtime. It is not a field of the
  class: it records which external operations a path of the loader has performed.
\<close>

datatype Call = Call_runtime_init | Call_load_method | Call_set_input size_t | Call_execute

text \<open>
  The fields of the class, followed by the function-local static storage of
  \<open>createInputTensor\<close> (three arrays of two entries) and by the call history.
  \<open>method_res\<close> is the field \<open>method_\<close>, a \<open>Result<Method>\<close>.
  \<open>memory_manager\<close> only holds pointers to the three allocators: it is modelled by
  whether it has been constructed.
\<close>

record ('p, 'm) ProgramLoader =
  initialized :: bool
  method_allocator :: "ETMemoryAllocator option"
  temp_allocator :: "ETMemoryAllocator option"
  memory_manager :: bool
  planned_memory :: "(ptr \<times> size_t) list option"
  program :: "'p option"
  method_res :: "(Code + 'm Method) option"
  planned_buffers :: "ptr list"
  planned_spans :: "(ptr \<times> size_t) list"
  sizes_storage :: "32 word list list"
  dim_order_storage :: "8 word list list"
  tensor_impls :: "TensorImpl option list"
  runtime_calls :: "Call list"

definition ProgramLoader_new :: "('p, 'm) ProgramLoader" where
  "ProgramLoader_new =
     \<lparr>initialized = False, method_allocator = None, temp_allocator = None,
      memory_manager = False, planned_memory = None, program = None, method_res = None,
      planned_buffers = [], planned_spans = [],
      sizes_storage = [[], []], dim_order_storage = [[], []], tensor_impls = [None, None],
      runtime_calls = []\<rparr>"

definition isLoaded :: "('p, 'm) ProgramLoader \<Rightarrow> bool" where
  "isLoaded s = (case method_res s of None \<Rightarrow> False | Some (Inl e) \<Rightarrow> False | Some (Inr m) \<Rightarrow> True)"

definition initialize :: "Build \<Rightarrow> ('p, 'm) ProgramLoader \<Rightarrow> ('p, 'm) ProgramLoader" where
  "initialize b s =
     (if initialized s then s
      else s\<lparr>runtime_calls := runtime_calls s @ [Call_runtime_init],
             method_allocator :=
               Some (ETMemoryAllocator_new (METHOD_ALLOCATOR_POOL_SIZE b) (method_allocation_pool b)),
             temp_allocator :=
               Some (ETMemoryAllocator_new (TEMP_ALLOCATOR_POOL_SIZE b) (temp_allocation_pool b)),
             initialized := True\<rparr>)"

text \<open>
  The loop of \<open>loadProgram\<close> over the buffer ids. \<open>static_cast<size_t>\<close> keeps the low
  32 bits of the declared size (\<open>ucast\<close>). The result is \<open>None\<close> where the C++ has no
  defined behaviour: \<open>method_allocator\<close> is dereferenced while null.
\<close>

fun allocate_planned_buffers ::
  "('p, 'm) Runtime \<Rightarrow> MethodMeta \<Rightarrow> size_t list \<Rightarrow> ('p, 'm) ProgramLoader \<Rightarrow>
   (Error \<times> ('p, 'm) ProgramLoader) option" where
  "allocate_planned_buffers rt mm [] s = Some (Ok, s)"
| "allocate_planned_buffers rt mm (i # ids) s =
     (case memory_planned_buffer_size mm i of
        Inl e \<Rightarrow> Some (Fail e, s)
      | Inr d \<Rightarrow>
          let buffer_size = (ucast d :: size_t) in
          (case method_allocator s of
             None \<Rightarrow> None
           | Some ma \<Rightarrow>
               let (buffer, ma') = allocate (rt_allocate rt) buffer_size (kDefaultAlignment rt) ma;
                   s1 = s\<lparr>method_allocator := Some ma'\<rparr>
               in if buffer = nullptr then Some (Fail MemoryAllocationFailed, s1)
                  else allocate_planned_buffers rt mm ids
                         (s1\<lparr>planned_buffers := planned_buffers s1 @ [buffer],
                             planned_spans := planned_spans s1 @ [(buffer, buffer_size)]\<rparr>)))"

definition loadProgram ::
  "('p, 'm) Runtime \<Rightarrow> Build \<Rightarrow> ('p, 'm) ProgramLoader \<Rightarrow>
   (Error \<times> ('p, 'm) ProgramLoader) option" where
  "loadProgram rt b s =
     (if \<not> initialized s then Some (Fail InvalidState, s)
      else case rt_Program_load rt (model_pte b) of
        Inl e \<Rightarrow> Some (Fail e, s)
      | Inr prog \<Rightarrow>
          let s1 = s\<lparr>program := Some prog\<rparr> in
          (case rt_method_meta rt prog ''forward'' of
             Inl e \<Rightarrow> Some (Fail e, s1)
           | Inr mm \<Rightarrow>
               let n = num_memory_planned_buffers mm;
                   s2 = s1\<lparr>planned_buffers := [], planned_spans := []\<rparr>
               in (case allocate_planned_buffers rt mm (map of_nat [0..<unat n]) s2 of
                     None \<Rightarrow> None
                   | Some (err, s3) \<Rightarrow>
                       if err \<noteq> Ok then Some (err, s3)
                       else
                         let s4 = s3\<lparr>planned_memory := Some (planned_spans s3),
                                      memory_manager := True\<rparr>
                         in (case (method_allocator s4, temp_allocator s4) of
                               (Some ma, Some ta) \<Rightarrow>
                                 let (method_result, ma', ta') =
                                       rt_load_method rt prog ''forward'' (planned_spans s4) (ma, ta);
                                     s5 = s4\<lparr>method_allocator := Some ma',
                                              temp_allocator := Some ta',
                                              runtime_calls := runtime_calls s4 @ [Call_load_method]\<rparr>
                                 in (case method_result of
                                       Inl e \<Rightarrow> Some (Fail e, s5)
                                     | Inr m \<Rightarrow> Some (Ok, s5\<lparr>method_res := Some (Inr m)\<rparr>))
                             | _ \<Rightarrow> None))))"

definition createInputTensor ::
  "('p, 'm) Runtime \<Rightarrow> float list \<Rightarrow> size_t \<Rightarrow> size_t \<Rightarrow> ('p, 'm) ProgramLoader \<Rightarrow>
   Error \<times> ('p, 'm) ProgramLoader" where
  "createInputTensor rt data sz input_index s =
     (case method_res s of
        Some (Inr m) \<Rightarrow>
          (case input_tensor_meta (method_meta m) input_index of
             Inl e \<Rightarrow> (Fail e, s)
           | Inr tensor_meta \<Rightarrow>
               let expected_bytes = nbytes tensor_meta;
                   provided_bytes = sz * 4
               in if provided_bytes \<noteq> expected_bytes then (Fail InvalidArgument, s)
                  else if input_index \<ge> 2 then (Fail InvalidArgument, s)
                  else
                    let i = unat input_index;
                        s1 = s\<lparr>sizes_storage := (sizes_storage s)[i := sizes tensor_meta],
                               dim_order_storage :=
                                 (dim_order_storage s)[i := dim_order tensor_meta]\<rparr>;
                        impl = \<lparr>t_type = Float,
                                t_dim = of_nat (length (sizes_storage s1 ! i)),
                                t_sizes = sizes_storage s1 ! i,
                                t_data = data,
                                t_dim_order = dim_order_storage s1 ! i\<rparr>;
                        s2 = s1\<lparr>tensor_impls := (tensor_impls s1)[i := Some impl]\<rparr>;
                        (error, m') = rt_set_input rt m (TensorValue impl) input_index;
                        s3 = s2\<lparr>method_res := Some (Inr (m\<lparr>m_state := m'\<rparr>)),
                                runtime_calls := runtime_calls s2 @ [Call_set_input input_index]\<rparr>
                    in if error \<noteq> Ok then (error, s3) else (Ok, s3))
      | _ \<Rightarrow> (Fail InvalidState, s))"

text \<open>
  \<open>std::memcpy\<close> of \<open>n\<close> bytes between two buffers of floats: the first \<open>n div 4\<close>
  elements of the destination are replaced by those of the source. Copying beyond the
  end of either buffer has no defined behaviour: the result is \<open>None\<close>.
\<close>

definition memcpy :: "float list \<Rightarrow> float list \<Rightarrow> size_t \<Rightarrow> float list option" where
  "memcpy dst src n =
     (let k = unat n div 4
      in if k \<le> length dst \<and> k \<le> length src then Some (take k src @ drop k dst) else None)"

text \<open>
  \<open>runInference\<close> returns the status, the loader and the contents of the caller's
  output buffer; \<open>None\<close> where the C++ has no defined behaviour.
\<close>

definition runInference ::
  "('p, 'm) Runtime \<Rightarrow> float list \<Rightarrow> float list \<Rightarrow> size_t \<Rightarrow> float list \<Rightarrow> size_t \<Rightarrow>
   ('p, 'm) ProgramLoader \<Rightarrow> (Error \<times> ('p, 'm) ProgramLoader \<times> float list) option" where
  "runInference rt input1 input2 input_size output output_size s =
     (if \<not> isLoaded s then Some (Fail InvalidState, s, output)
      else
        let (error, s1) = createInputTensor rt input1 input_size 0 s in
        if error \<noteq> Ok then Some (error, s1, output)
        else
          let (error, s2) = createInputTensor rt input2 input_size 1 s1 in
          if error \<noteq> Ok then Some (error, s2, output)
          else
            (case (method_res s2, method_allocator s2, temp_allocator s2) of
               (Some (Inr m), Some ma, Some ta) \<Rightarrow>
                 let (error, m', ma', ta') = rt_execute rt m (ma, ta);
                     method1 = m\<lparr>m_state := m'\<rparr>;
                     s3 = s2\<lparr>method_res := Some (Inr method1),
                             method_allocator := Some ma', temp_allocator := Some ta',
                             runtime_calls := runtime_calls s2 @ [Call_execute]\<rparr>
                 in if error \<noteq> Ok then Some (error, s3, output)
                    else
                      (case rt_get_output rt method1 0 of
                         TensorValue output_tensor \<Rightarrow>
                           let expected_elements = rt_numel rt output_tensor in
                           if output_size < expected_elements
                           then Some (Fail InvalidArgument, s3, output)
                           else
                             (case memcpy output (t_data output_tensor) (expected_elements * 4) of
                                None \<Rightarrow> None
                              | Some output' \<Rightarrow> Some (Ok, s3, output'))
                       | _ \<Rightarrow> Some (Fail InvalidArgument, s3, output))
             | _ \<Rightarrow> None))"


text \<open>The calls into the runtime made between the state \<open>s\<close> and a later state \<open>s'\<close>.\<close>

definition calls_since :: "('p, 'm) ProgramLoader \<Rightarrow> ('p, 'm) ProgramLoader \<Rightarrow> Call list" where
  "calls_since s s' = drop (length (runtime_calls s)) (runtime_calls s')"

section \<open>Concrete instances\<close>

text \<open>A 32-byte pool at address \<open>0x20000000\<close>, and the same allocator after a first request.\<close>

definition small_pool :: ETMemoryAllocator where
  "small_pool = ETMemoryAllocator_new 32 0x20000000"

definition small_pool_used5 :: ETMemoryAllocator where
  "small_pool_used5 = snd (allocate MemoryAllocator_allocate 5 1 small_pool)"

definition small_pool_used21 :: ETMemoryAllocator where
  "small_pool_used21 = snd (allocate MemoryAllocator_allocate 5 16 small_pool)"

text \<open>The 32-byte pool after two requests of 5 bytes aligned to 16.\<close>

definition small_pool_twice :: ETMemoryAllocator where
  "small_pool_twice =
     allocate_all MemoryAllocator_allocate [(5, 16), (5, 16)] (ETMemoryAllocator_new 32 0x20000000)"

text \<open>The default build: pools of 16 KB and 2 KB.\<close>

definition default_build :: Build where
  "default_build =
     \<lparr>METHOD_ALLOCATOR_POOL_SIZE = 16384, TEMP_ALLOCATOR_POOL_SIZE = 2048,
      method_allocation_pool = 0x20000000, temp_allocation_pool = 0x20004000,
      model_pte = []\<rparr>"

text \<open>
  Declarations of a method with two planned buffers of 16 and 48 bytes and two inputs
  of \<open>b0\<close> and \<open>b1\<close> bytes; a query beyond the declared buffers or inputs fails with
  the code \<open>c\<close>.
\<close>

definition two_input_meta :: "size_t \<Rightarrow> size_t \<Rightarrow> Code \<Rightarrow> MethodMeta" where
  "two_input_meta b0 b1 c =
     \<lparr>num_memory_planned_buffers = 2,
      memory_planned_buffer_size =
        (\<lambda>i. if i = 0 then Inr 16 else if i = 1 then Inr 48 else Inl c),
      input_tensor_meta =
        (\<lambda>i. if i = 0 then Inr \<lparr>sizes = [1], dim_order = [0], nbytes = b0\<rparr>
             else if i = 1 then Inr \<lparr>sizes = [1], dim_order = [0], nbytes = b1\<rparr>
             else Inl c)\<rparr>"

text \<open>
  A runtime for these declarations: parsing and loading succeed, binding an input
  answers \<open>bind\<close>, executing succeeds and leaves the floats \<open>out\<close> as the output
  tensor. Its allocator is the base allocator modelled above.
\<close>

definition stub_runtime :: "MethodMeta \<Rightarrow> Error \<Rightarrow> float list \<Rightarrow> (unit, float list) Runtime" where
  "stub_runtime mm bind out =
     \<lparr>kDefaultAlignment = 4,
      rt_allocate = MemoryAllocator_allocate,
      rt_Program_load = (\<lambda>bytes. Inr ()),
      rt_method_meta = (\<lambda>p name. if name = ''forward'' then Inr mm else Inl (Opaque 0)),
      rt_load_method = (\<lambda>p name spans allocs. (Inr \<lparr>method_meta = mm, m_state = []\<rparr>, allocs)),
      rt_set_input = (\<lambda>m v i. (bind, m_state m)),
      rt_execute = (\<lambda>m allocs. (Ok, out, allocs)),
      rt_get_output =
        (\<lambda>m i. TensorValue \<lparr>t_type = Float, t_dim = 1,
                               t_sizes = [of_nat (length (m_state m))],
                               t_data = m_state m, t_dim_order = [0]\<rparr>),
      rt_numel = (\<lambda>t. of_nat (length (t_data t)))\<rparr>"

text \<open>The loader after \<open>initialize\<close> and \<open>loadProgram\<close> on such a runtime.\<close>

definition loaded_on :: "(unit, float list) Runtime \<Rightarrow> (unit, float list) ProgramLoader" where
  "loaded_on rt =
     (case loadProgram rt default_build (initialize default_build ProgramLoader_new) of
        Some (e, s) \<Rightarrow> s
      | None \<Rightarrow> ProgramLoader_new)"

text \<open>
  The bundled model: two inputs of one float each (4 bytes), with the output 5.0
  (\<open>0x40A00000\<close>) after execution. A query for an input beyond the second one fails with
  \<open>InvalidArgument\<close>.
\<close>

definition adder_runtime :: "(unit, float list) Runtime" where
  "adder_runtime = stub_runtime (two_input_meta 4 4 InvalidArgument) Ok [0x40A00000]"

definition adder_loaded :: "(unit, float list) ProgramLoader" where
  "adder_loaded = loaded_on adder_runtime"

text \<open>The same runtime, except that a query for an undeclared input fails with another code.\<close>

definition other_code_runtime :: "(unit, float list) Runtime" where
  "other_code_runtime = stub_runtime (two_input_meta 4 4 (Opaque 1)) Ok [0x40A00000]"

definition other_code_loaded :: "(unit, float list) ProgramLoader" where
  "other_code_loaded = loaded_on other_code_runtime"

text \<open>
  A method whose second input is declared with 8 bytes, on a runtime that binds inputs,
  and on one whose \<open>set_input\<close> fails with a code of its own.
\<close>

definition uneven_runtime :: "(unit, float list) Runtime" where
  "uneven_runtime = stub_runtime (two_input_meta 4 8 InvalidArgument) Ok [0x40A00000]"

definition uneven_loaded :: "(unit, float list) ProgramLoader" where
  "uneven_loaded = loaded_on uneven_runtime"

definition failing_bind_runtime :: "(unit, float list) Runtime" where
  "failing_bind_runtime =
     stub_runtime (two_input_meta 4 8 InvalidArgument) (Fail (Opaque 1)) [0x40A00000]"

definition failing_bind_loaded :: "(unit, float list) ProgramLoader" where
  "failing_bind_loaded = loaded_on failing_bind_runtime"

text \<open>A runtime whose output tensor has two elements.\<close>

definition wide_runtime :: "(unit, float list) Runtime" where
  "wide_runtime = stub_runtime (two_input_meta 4 4 InvalidArgument) Ok [0x40A00000, 0x40A00000]"

definition wide_loaded :: "(unit, float list) ProgramLoader" where
  "wide_loaded = loaded_on wide_runtime"

text \<open>The loader after a second \<open>loadProgram\<close>.\<close>

definition adder_reloaded :: "(unit, float list) ProgramLoader" where
  "adder_reloaded =
     (case loadProgram adder_runtime default_build adder_loaded of
        Some (e, s) \<Rightarrow> s
      | None \<Rightarrow> ProgramLoader_new)"

text \<open>
  A method that declares one planned buffer of \<open>0x100000010\<close> bytes (4 GiB and 16 bytes),
  on a runtime like the ones above.
\<close>

definition oversized_meta :: MethodMeta where
  "oversized_meta =
     \<lparr>num_memory_planned_buffers = 1,
      memory_planned_buffer_size = (\<lambda>i. if i = 0 then Inr 0x100000010 else Inl InvalidArgument),
      input_tensor_meta =
        (\<lambda>i. if i = 0 \<or> i = 1 then Inr \<lparr>sizes = [1], dim_order = [0], nbytes = 4\<rparr>
             else Inl InvalidArgument)\<rparr>"

definition oversized_runtime :: "(unit, float list) Runtime" where
  "oversized_runtime = stub_runtime oversized_meta Ok [0x40A00000]"

definition oversized_loaded :: "(unit, float list) ProgramLoader" where
  "oversized_loaded = loaded_on oversized_runtime"

section \<open>Properties of \<open>ETMemoryAllocator\<close>\<close>


lemma and_mask_zero_iff_dvd:
  fixes w :: "32 word"
  shows "(w AND (2 ^ k - 1) = 0) \<longleftrightarrow> (2 ^ k dvd unat w)"
proof -
  have "w AND (2 ^ k - 1) = take_bit k w"
    by (simp add: take_bit_eq_mask mask_eq_decr_exp)
  moreover have "unat (take_bit k w) = unat w mod 2 ^ k"
    by (metis take_bit_eq_mod unsigned_take_bit_eq)
  ultimately show ?thesis
    by (metis unat_eq_0 mod_eq_0_iff_dvd)
qed

lemma and_not_mask_round_down:
  fixes w :: "32 word"
  shows "w AND NOT (2 ^ k - 1) = of_nat ((unat w div 2 ^ k) * 2 ^ k)"
proof -
  have "(unat w div 2 ^ k) * 2 ^ k = push_bit k (drop_bit k (unat w))"
    by (simp add: push_bit_eq_mult drop_bit_eq_div)
  moreover have "w AND NOT (mask k) = of_nat (push_bit k (drop_bit k (unat w)))"
    by (rule bit_eqI) (auto simp: bit_simps)
  ultimately show ?thesis
    by (simp add: mask_eq_decr_exp)
qed

lemma alignPointer_ge: "0 < a \<Longrightarrow> p \<le> alignPointer p a"
proof -
  assume a: "0 < a"
  have "(p + a - 1) mod a < a" using a by simp
  moreover have "(p + a - 1) div a * a + (p + a - 1) mod a = p + a - 1"
    by simp
  ultimately show ?thesis unfolding alignPointer_def using a by linarith
qed

lemma unat_pow2: "k < 32 \<Longrightarrow> unat (2 ^ k :: 32 word) = 2 ^ k"
proof -
  assume k: "k < 32"
  have "(2::nat) ^ k < 2 ^ 32" by (rule power_strict_increasing [OF k]) simp
  then have m: "(2::nat) ^ k mod 2 ^ LENGTH(32) = 2 ^ k" by simp
  have "unat (word_of_nat (2 ^ k) :: 32 word) = 2 ^ k mod 2 ^ LENGTH(32)"
    by (rule unat_of_nat)
  then show ?thesis unfolding m by simp
qed

lemma isPowerOf2_iff: "isPowerOf2 a \<longleftrightarrow> (\<exists>k<32. a = 2 ^ k)"
  unfolding isPowerOf2_def by auto

lemma allocate_cases:
  "allocate base_allocate sz alignment a =
     (fst (base_allocate sz alignment (base a)),
      if fst (base_allocate sz alignment (base a)) = nullptr
      then a\<lparr>base := snd (base_allocate sz alignment (base a))\<rparr>
      else a\<lparr>base := snd (base_allocate sz alignment (base a)),
             used := (if sz AND (alignment - 1) = 0 then used a + sz
                      else (used a AND NOT (alignment - 1)) + alignment + sz)\<rparr>)"
  by (simp add: allocate_def Let_def split: prod.split)

text \<open>
  Claim C1, as amended. After a call of \<open>allocate\<close> that returns a non-null pointer, with
  an alignment that is a power of two: if the size is a multiple of the alignment, the
  counter has grown by exactly the size; otherwise the counter is the old counter rounded
  \<^emph>\<open>down\<close> to a multiple of the alignment, plus one alignment unit, plus the size. The
  arithmetic is that of \<open>size_t\<close>. This holds for every behaviour of the base class's
  \<open>allocate\<close>.
\<close>

theorem C1_used_after_successful_allocate:
  assumes "fst (allocate base_allocate sz alignment a) \<noteq> nullptr"
    and "alignment = 2 ^ k" and "k < 32"
  shows "used_size (snd (allocate base_allocate sz alignment a)) =
           (if unat alignment dvd unat sz then used_size a + sz
            else round_down (used_size a) alignment + alignment + sz)"
proof -
  have u: "unat alignment = 2 ^ k"
    using assms(2,3) by (simp add: unat_pow2)
  have "(sz AND (alignment - 1) = 0) \<longleftrightarrow> unat alignment dvd unat sz"
    unfolding u unfolding assms(2) by (rule and_mask_zero_iff_dvd)
  moreover have "used a AND NOT (alignment - 1) = round_down (used a) alignment"
    unfolding round_down_def u unfolding assms(2) by (rule and_not_mask_round_down)
  ultimately show ?thesis
    using assms(1) by (simp add: allocate_cases used_size_def)
qed

text \<open>
  Claim C3. A call of \<open>allocate\<close> that fails, that is, whose base allocator returns the
  null pointer, leaves \<open>used_size\<close> unchanged. This holds for every behaviour of the base
  class's \<open>allocate\<close>.
\<close>

theorem C3_failed_allocate_keeps_used:
  assumes "fst (allocate base_allocate sz alignment a) = nullptr"
  shows "used_size (snd (allocate base_allocate sz alignment a)) = used_size a"
  using assms by (simp add: allocate_cases used_size_def)

lemma alloc_inv_step:
  assumes inv: "alloc_inv a" and d: "unat alignment dvd unat sz"
  shows "alloc_inv (snd (allocate MemoryAllocator_allocate sz alignment a)) \<and>
         m_begin (base (snd (allocate MemoryAllocator_allocate sz alignment a))) = m_begin (base a) \<and>
         m_end (base (snd (allocate MemoryAllocator_allocate sz alignment a))) = m_end (base a)"
proof (cases "\<not> isPowerOf2 alignment \<or>
    unat (m_end (base a)) < alignPointer (unat (m_cur (base a))) (unat alignment) + unat sz")
  case True
  then have "MemoryAllocator_allocate sz alignment (base a) = (nullptr, base a)"
    by (simp add: MemoryAllocator_allocate_def Let_def)
  then show ?thesis using inv by (simp add: allocate_cases)
next
  case False
  define e where "e = alignPointer (unat (m_cur (base a))) (unat alignment) + unat sz"
  from False obtain k where k: "k < 32" "alignment = 2 ^ k"
    by (auto simp: isPowerOf2_iff)
  have u: "unat alignment = 2 ^ k" using k by (simp add: unat_pow2)
  have fit: "e \<le> unat (m_end (base a))" using False by (simp add: e_def)
  have ge: "unat (m_cur (base a)) + unat sz \<le> e"
    unfolding e_def using alignPointer_ge [of "unat alignment" "unat (m_cur (base a))"] u by simp
  have "unat (m_end (base a)) < 2 ^ 32" using unsigned_less [of "m_end (base a)"] by simp
  then have e32: "e < 2 ^ 32" using fit by simp
  have ue: "unat (of_nat e :: 32 word) = e"
    using e32 by (simp add: unat_of_nat)
  have b: "MemoryAllocator_allocate sz alignment (base a) =
      (of_nat (alignPointer (unat (m_cur (base a))) (unat alignment)), (base a)\<lparr>m_cur := of_nat e\<rparr>)"
    using False by (simp add: MemoryAllocator_allocate_def Let_def e_def)
  have z: "sz AND (alignment - 1) = 0"
    using d unfolding u unfolding k(2) by (simp add: and_mask_zero_iff_dvd)
  have "unat (used a) + unat sz < 2 ^ 32"
    using inv ge e32 by (simp add: alloc_inv_def)
  then have us: "unat (used a + sz) = unat (used a) + unat sz"
    by (simp add: unat_add_lem [THEN iffD1])
  show ?thesis
    using inv ge fit by (simp add: allocate_cases b z us ue alloc_inv_def)
qed

lemma alloc_inv_all:
  assumes "alloc_inv a" and "\<forall>(sz, alignment) \<in> set reqs. unat alignment dvd unat sz"
  shows "alloc_inv (allocate_all MemoryAllocator_allocate reqs a) \<and>
         m_begin (base (allocate_all MemoryAllocator_allocate reqs a)) = m_begin (base a) \<and>
         m_end (base (allocate_all MemoryAllocator_allocate reqs a)) = m_end (base a)"
  using assms
proof (induction reqs arbitrary: a)
  case Nil
  then show ?case by simp
next
  case (Cons r reqs)
  obtain sz alignment where r: "r = (sz, alignment)" by (cases r)
  have d: "unat alignment dvd unat sz" using Cons.prems(2) r by simp
  note st = alloc_inv_step [OF Cons.prems(1) d]
  have "\<forall>(sz, alignment) \<in> set reqs. unat alignment dvd unat sz"
    using Cons.prems(2) by simp
  from Cons.IH [OF conjunct1 [OF st] this] st show ?case
    by (simp add: r)
qed

text \<open>
  Where each request's size is a multiple of its alignment, the counter stays within the
  capacity \<open>C\<close> of a pool that lies inside the address space, after every call of a
  sequence (\<open>take n reqs\<close> is the sequence up to its \<open>n\<close>-th call).
\<close>

lemma used_le_capacity_aligned_sizes:
  assumes fits: "unat base_address + unat C < 2 ^ 32"
    and reqs: "\<forall>(sz, alignment) \<in> set reqs. unat alignment dvd unat sz"
  shows "used_size (allocate_all MemoryAllocator_allocate (take n reqs)
           (ETMemoryAllocator_new C base_address)) \<le> C"
proof -
  let ?a0 = "ETMemoryAllocator_new C base_address"
  have e: "unat (base_address + C) = unat base_address + unat C"
    using fits by (simp add: unat_add_lem [THEN iffD1])
  have i0: "alloc_inv ?a0"
    by (simp add: alloc_inv_def ETMemoryAllocator_new_def MemoryAllocator_new_def e)
  have "\<forall>(sz, alignment) \<in> set (take n reqs). unat alignment dvd unat sz"
    using reqs by (auto dest: in_set_takeD)
  note fin = alloc_inv_all [OF i0 this]
  let ?a = "allocate_all MemoryAllocator_allocate (take n reqs) ?a0"
  have "m_begin (base ?a) = base_address" "m_end (base ?a) = base_address + C"
    using fin by (simp_all add: ETMemoryAllocator_new_def MemoryAllocator_new_def)
  moreover have "unat (m_begin (base ?a)) + unat (used ?a) \<le> unat (m_end (base ?a))"
    using fin unfolding alloc_inv_def by linarith
  ultimately have "unat base_address + unat (used ?a) \<le> unat base_address + unat C"
    by (simp add: e)
  then show ?thesis
    by (simp add: used_size_def word_le_nat_alt)
qed


lemma isPowerOf2_1: "isPowerOf2 1"
  by (simp add: isPowerOf2_def upt_rec)

lemma isPowerOf2_16: "isPowerOf2 16"
  by (simp add: isPowerOf2_def upt_rec)

lemmas alloc_eval =
  allocate_def MemoryAllocator_allocate_def ETMemoryAllocator_new_def MemoryAllocator_new_def
  alignPointer_def isPowerOf2_1 isPowerOf2_16 Let_def used_size_def small_pool_def

lemma small_pool_used5_eq:
  "small_pool_used5 =
     \<lparr>base = \<lparr>m_begin = 0x20000000, m_end = 0x20000020, m_cur = 0x20000005, m_size = 32\<rparr>,
      used = 5\<rparr>"
  by (simp add: small_pool_used5_def alloc_eval)

lemma small_pool_used21_eq:
  "small_pool_used21 =
     \<lparr>base = \<lparr>m_begin = 0x20000000, m_end = 0x20000020, m_cur = 0x20000005, m_size = 32\<rparr>,
      used = 21\<rparr>"
  by (simp add: small_pool_used21_def alloc_eval)

text \<open>
  Claim C1 as stated fails where the counter is not a multiple of the alignment. With
  5 bytes used, a successful request of 5 bytes aligned to 16 leaves the counter at
  \<open>0 + 16 + 5 = 21\<close>; rounding the counter up first, as the claim says, would give
  \<open>16 + 16 + 5 = 37\<close>.
\<close>

theorem C1_counterexample:
  "fst (allocate MemoryAllocator_allocate 5 16 small_pool_used5) \<noteq> nullptr \<and>
   \<not> unat (16 :: size_t) dvd unat (5 :: size_t) \<and>
   used_size small_pool_used5 = 5 \<and>
   used_size (snd (allocate MemoryAllocator_allocate 5 16 small_pool_used5)) = 21 \<and>
   spec_used_after (used_size small_pool_used5) 5 16 = 37"
  by (simp add: small_pool_used5_eq alloc_eval spec_used_after_def round_up_def)

text \<open>
  The amended claim C1 at this request.
\<close>

theorem C1_witness:
  "fst (allocate MemoryAllocator_allocate 5 16 small_pool_used5) \<noteq> nullptr \<and>
   (16 :: size_t) = 2 ^ 4 \<and> (4 :: nat) < 32 \<and>
   used_size (snd (allocate MemoryAllocator_allocate 5 16 small_pool_used5)) =
     round_down (used_size small_pool_used5) 16 + 16 + 5"
proof -
  have h: "fst (allocate MemoryAllocator_allocate 5 16 small_pool_used5) \<noteq> nullptr"
    by (simp add: small_pool_used5_eq alloc_eval)
  have p: "(16 :: size_t) = 2 ^ 4" by simp
  show ?thesis
    using h C1_used_after_successful_allocate [OF h p] by simp
qed

text \<open>
  Claim C3 on the 32-byte pool with 21 bytes counted: a request of 64 bytes fails.
\<close>

theorem C3_witness:
  "fst (allocate MemoryAllocator_allocate 64 16 small_pool_used21) = nullptr \<and>
   used_size small_pool_used21 = 21 \<and>
   used_size (snd (allocate MemoryAllocator_allocate 64 16 small_pool_used21)) = 21"
proof -
  have h: "fst (allocate MemoryAllocator_allocate 64 16 small_pool_used21) = nullptr"
    by (simp add: small_pool_used21_eq alloc_eval)
  have u: "used_size small_pool_used21 = 21"
    by (simp add: small_pool_used21_eq used_size_def)
  show ?thesis
    using h u C3_failed_allocate_keeps_used [OF h] by simp
qed

text \<open>
  Claim C2 is not met by the code. On a pool of 32 bytes, after two successful requests of
  5 bytes aligned to 16 the cursor has advanced by 21 bytes, but \<open>used_size\<close> is 37, more
  than the capacity, and \<open>free_size\<close>, which subtracts the counter from the capacity,
  wraps around to \<open>0xFFFFFFFB\<close>.
\<close>

theorem C2_used_exceeds_capacity:
  "MemoryAllocator_size (base small_pool_twice) = 32 \<and>
   m_cur (base small_pool_twice) = m_begin (base small_pool_twice) + 21 \<and>
   used_size small_pool_twice = 37 \<and>
   \<not> used_size small_pool_twice \<le> 32 \<and>
   free_size small_pool_twice = 0xFFFFFFFB"
  by (simp add: small_pool_twice_def alloc_eval free_size_def MemoryAllocator_size_def)

section \<open>Properties of \<open>ProgramLoader\<close>\<close>


lemma isLoaded_iff: "isLoaded s \<longleftrightarrow> (\<exists>m. method_res s = Some (Inr m))"
  by (auto simp: isLoaded_def split: option.splits sum.splits)

text \<open>
  Claim C8. \<open>initialize\<close> is idempotent: a second call is a no-op, so two consecutive calls
  leave the loader, with its two allocators and their used counters, exactly as one call
  does; the pools are not wrapped a second time and the runtime is not initialised again.
\<close>

theorem C8_initialize_idempotent:
  "initialize b (initialize b s) = initialize b s"
  by (simp add: initialize_def)

text \<open>
  Claim C9. In a state in which no method is loaded (\<open>isLoaded\<close> is false),
  \<open>runInference\<close> returns \<open>InvalidState\<close> and leaves the whole loader state, with its
  allocators and its call history, and the output buffer unchanged.
\<close>

theorem C9_runInference_not_loaded:
  assumes "\<not> isLoaded s"
  shows "runInference rt input1 input2 input_size output output_size s =
           Some (Fail InvalidState, s, output)"
  using assms by (simp add: runInference_def)

text \<open>
  Claim C4, as amended. With a method loaded, \<open>createInputTensor\<close> with an input index of
  2 or more fails and leaves the whole loader state, in particular both allocators and
  their used counters, unchanged. The status is \<open>InvalidArgument\<close> when the metadata query
  for that index succeeds; when the query fails, its error code is returned unchanged,
  because the query is made before the index is checked.
\<close>

theorem C4_createInputTensor_index_ge_2:
  assumes "method_res s = Some (Inr m)" and "2 \<le> input_index"
  shows "createInputTensor rt data sz input_index s =
           (case input_tensor_meta (method_meta m) input_index of
              Inl c \<Rightarrow> Fail c
            | Inr tensor_meta \<Rightarrow> Fail InvalidArgument,
            s)"
  using assms by (simp add: createInputTensor_def Let_def split: sum.split)


lemma createInputTensor_not_loaded:
  "\<not> isLoaded s \<Longrightarrow> createInputTensor rt data sz input_index s = (Fail InvalidState, s)"
  by (auto simp: createInputTensor_def isLoaded_def split: option.splits sum.splits)

lemma createInputTensor_mismatch:
  assumes "method_res s = Some (Inr m)"
    and "input_tensor_meta (method_meta m) input_index = Inr ti"
    and "nbytes ti \<noteq> sz * 4"
  shows "createInputTensor rt data sz input_index s = (Fail InvalidArgument, s)"
  using assms by (auto simp: createInputTensor_def Let_def)

lemma createInputTensor_frame:
  assumes "method_res s = Some (Inr m)"
    and "createInputTensor rt data sz input_index s = (e, s')"
  shows "method_allocator s' = method_allocator s \<and> temp_allocator s' = temp_allocator s \<and>
         (\<exists>m'. method_res s' = Some (Inr m') \<and> method_meta m' = method_meta m) \<and>
         (runtime_calls s' = runtime_calls s \<or>
          runtime_calls s' = runtime_calls s @ [Call_set_input input_index] \<and>
          (\<exists>v. fst (rt_set_input rt m v input_index) = e))"
  using assms
  by (auto simp: createInputTensor_def Let_def split: sum.splits prod.splits if_splits)
    (metis fst_conv)+

lemma createInputTensor_slot0:
  assumes m: "method_res s = Some (Inr m)"
    and t0: "input_tensor_meta (method_meta m) 0 = Inr t0"
    and eq: "nbytes t0 = sz * 4"
    and st: "length (sizes_storage s) = 2" "length (dim_order_storage s) = 2"
  shows "\<exists>s1. createInputTensor rt data sz 0 s =
           (fst (rt_set_input rt m
                  (TensorValue \<lparr>t_type = Float, t_dim = of_nat (length (sizes t0)),
                                 t_sizes = sizes t0, t_data = data,
                                 t_dim_order = dim_order t0\<rparr>) 0), s1)"
  using assms
  by (simp add: createInputTensor_def Let_def split: prod.split)

text \<open>
  Claim C5, as amended. With a method loaded whose declared byte length differs from
  \<open>input_size * sizeof(float)\<close> for the first or the second input (and the static storage
  arrays holding their two entries), \<open>runInference\<close> fails, does not execute the method,
  leaves both allocators unchanged and writes nothing to the output buffer. The status is
  \<open>InvalidArgument\<close> when the first input does not match, and when it matches and is
  bound successfully; when the first input matches and binding it fails, the status is
  the error of \<open>set_input\<close>, unchanged.
\<close>

theorem C5_size_mismatch_no_execution:
  assumes m: "method_res s = Some (Inr m)"
    and t0: "input_tensor_meta (method_meta m) 0 = Inr t0"
    and t1: "input_tensor_meta (method_meta m) 1 = Inr t1"
    and mis: "nbytes t0 \<noteq> input_size * 4 \<or> nbytes t1 \<noteq> input_size * 4"
    and st: "length (sizes_storage s) = 2" "length (dim_order_storage s) = 2"
  shows "\<exists>s'. runInference rt input1 input2 input_size output output_size s =
                Some (if nbytes t0 \<noteq> input_size * 4 then Fail InvalidArgument
                      else (case fst (rt_set_input rt m
                                   (TensorValue \<lparr>t_type = Float,
                                                  t_dim = of_nat (length (sizes t0)),
                                                  t_sizes = sizes t0, t_data = input1,
                                                  t_dim_order = dim_order t0\<rparr>) 0) of
                              Ok \<Rightarrow> Fail InvalidArgument
                            | Fail c \<Rightarrow> Fail c),
                      s', output) \<and>
              Call_execute \<notin> set (calls_since s s') \<and>
              method_allocator s' = method_allocator s \<and>
              temp_allocator s' = temp_allocator s"
proof -
  have l: "isLoaded s" using m by (simp add: isLoaded_iff)
  show ?thesis
  proof (cases "nbytes t0 \<noteq> input_size * 4")
    case True
    have "createInputTensor rt input1 input_size 0 s = (Fail InvalidArgument, s)"
      by (rule createInputTensor_mismatch [OF m t0 True])
    then have "runInference rt input1 input2 input_size output output_size s =
        Some (Fail InvalidArgument, s, output)"
      using l by (simp add: runInference_def)
    then show ?thesis using True by (simp add: calls_since_def)
  next
    case False
    then have eq0: "nbytes t0 = input_size * 4" and ne1: "nbytes t1 \<noteq> input_size * 4"
      using mis by auto
    let ?e = "fst (rt_set_input rt m
                (TensorValue \<lparr>t_type = Float, t_dim = of_nat (length (sizes t0)),
                               t_sizes = sizes t0, t_data = input1,
                               t_dim_order = dim_order t0\<rparr>) 0)"
    from createInputTensor_slot0 [OF m t0 eq0 st, of rt input1]
    obtain s1 where c0: "createInputTensor rt input1 input_size 0 s = (?e, s1)"
      by blast
    note fr = createInputTensor_frame [OF m c0]
    from fr obtain m1 where m1: "method_res s1 = Some (Inr m1)" "method_meta m1 = method_meta m"
      by blast
    have nx: "Call_execute \<notin> set (calls_since s s1)"
      using fr by (auto simp: calls_since_def)
    have al: "method_allocator s1 = method_allocator s" "temp_allocator s1 = temp_allocator s"
      using fr by simp_all
    show ?thesis
    proof (cases ?e)
      case Ok
      have "createInputTensor rt input2 input_size 1 s1 = (Fail InvalidArgument, s1)"
        using createInputTensor_mismatch [OF m1(1) _ ne1] t1 m1(2) by simp
      then have "runInference rt input1 input2 input_size output output_size s =
          Some (Fail InvalidArgument, s1, output)"
        using l c0 Ok by (simp add: runInference_def)
      then show ?thesis using nx al eq0 Ok by simp
    next
      case (Fail c)
      have "runInference rt input1 input2 input_size output output_size s =
          Some (Fail c, s1, output)"
        using l c0 Fail by (simp add: runInference_def)
      then show ?thesis using nx al eq0 Fail by simp
    qed
  qed
qed

text \<open>
  Claim C6. When both inputs are bound, the execution succeeds and the output tensor has
  more elements than \<open>output_size\<close>, \<open>runInference\<close> returns \<open>InvalidArgument\<close> and the
  caller's output buffer is exactly as before: nothing is copied.
\<close>

theorem C6_output_buffer_too_small:
  assumes c0: "createInputTensor rt input1 input_size 0 s = (Ok, s1)"
    and c1: "createInputTensor rt input2 input_size 1 s1 = (Ok, s2)"
    and m: "method_res s2 = Some (Inr m)"
    and a: "method_allocator s2 = Some ma" "temp_allocator s2 = Some ta"
    and ex: "rt_execute rt m (ma, ta) = (Ok, m', ma', ta')"
    and out: "rt_get_output rt (m\<lparr>m_state := m'\<rparr>) 0 = TensorValue t"
    and small: "output_size < rt_numel rt t"
  shows "\<exists>s'. runInference rt input1 input2 input_size output output_size s =
                Some (Fail InvalidArgument, s', output)"
proof -
  have l: "isLoaded s"
    using c0 createInputTensor_not_loaded [of s rt input1 input_size 0] by auto
  show ?thesis
    using l c0 c1 m a ex out small by (simp add: runInference_def Let_def)
qed

lemma memcpy_Some:
  assumes "memcpy dst src (n * 4) = Some dst'" and "4 * unat n < 2 ^ 32"
  shows "unat n \<le> length src \<and> length dst' = length dst \<and>
         take (unat n) dst' = take (unat n) src \<and> drop (unat n) dst' = drop (unat n) dst"
proof -
  have "unat (n * 4) = unat n * 4"
    using assms(2) by (simp add: unat_word_ariths)
  then have k: "unat (n * 4) div 4 = unat n" by simp
  show ?thesis
    using assms(1) unfolding memcpy_def Let_def k
    by (auto split: if_splits)
qed

text \<open>
  Claim C7. After a successful \<open>runInference\<close> whose output tensor \<open>t\<close> has \<open>N\<close> elements
  (held in memory, so that \<open>4 * N\<close> bytes are addressable): \<open>N\<close> is at most \<open>output_size\<close>,
  the first \<open>N\<close> elements of the caller's buffer are those of the tensor's data, and every
  element from index \<open>N\<close> on is unchanged.
\<close>

theorem C7_output_copy:
  assumes run: "runInference rt input1 input2 input_size output output_size s =
                  Some (Ok, s', output')"
    and m: "method_res s' = Some (Inr m)"
    and out: "rt_get_output rt m 0 = TensorValue t"
    and fits: "4 * unat (rt_numel rt t) < 2 ^ 32"
  shows "rt_numel rt t \<le> output_size \<and>
         unat (rt_numel rt t) \<le> length (t_data t) \<and>
         length output' = length output \<and>
         take (unat (rt_numel rt t)) output' = take (unat (rt_numel rt t)) (t_data t) \<and>
         drop (unat (rt_numel rt t)) output' = drop (unat (rt_numel rt t)) output"
proof -
  have l: "isLoaded s"
    using run by (auto simp: runInference_def split: if_splits)
  obtain e1 s1 where c0: "createInputTensor rt input1 input_size 0 s = (e1, s1)"
    by (cases "createInputTensor rt input1 input_size 0 s")
  have e1: "e1 = Ok"
    using run l c0 by (auto simp: runInference_def split: if_splits)
  obtain e2 s2 where c1: "createInputTensor rt input2 input_size 1 s1 = (e2, s2)"
    by (cases "createInputTensor rt input2 input_size 1 s1")
  have e2: "e2 = Ok"
    using run l c0 e1 c1 by (auto simp: runInference_def split: if_splits)
  have r: "(case (method_res s2, method_allocator s2, temp_allocator s2) of
             (Some (Inr m), Some ma, Some ta) \<Rightarrow>
               let (error, m', ma', ta') = rt_execute rt m (ma, ta);
                   method1 = m\<lparr>m_state := m'\<rparr>;
                   s3 = s2\<lparr>method_res := Some (Inr method1),
                           method_allocator := Some ma', temp_allocator := Some ta',
                           runtime_calls := runtime_calls s2 @ [Call_execute]\<rparr>
               in if error \<noteq> Ok then Some (error, s3, output)
                  else
                    (case rt_get_output rt method1 0 of
                       TensorValue output_tensor \<Rightarrow>
                         let expected_elements = rt_numel rt output_tensor in
                         if output_size < expected_elements
                         then Some (Fail InvalidArgument, s3, output)
                         else
                           (case memcpy output (t_data output_tensor) (expected_elements * 4) of
                              None \<Rightarrow> None
                            | Some output' \<Rightarrow> Some (Ok, s3, output'))
                     | _ \<Rightarrow> Some (Fail InvalidArgument, s3, output))
           | _ \<Rightarrow> None) = Some (Ok, s', output')"
    using run l c0 e1 c1 e2 by (simp add: runInference_def)
  from r obtain m0 ma ta where st: "method_res s2 = Some (Inr m0)"
      "method_allocator s2 = Some ma" "temp_allocator s2 = Some ta"
    by (auto split: option.splits sum.splits)
  obtain e3 m' ma' ta' where ex: "rt_execute rt m0 (ma, ta) = (e3, m', ma', ta')"
    by (cases "rt_execute rt m0 (ma, ta)")
  from r st ex have e3: "e3 = Ok"
    by (auto simp: Let_def split: if_splits)
  from r st ex e3 have meq: "method_res s' = Some (Inr (m0\<lparr>m_state := m'\<rparr>))"
    by (auto simp: Let_def split: if_splits EValue.splits option.splits)
  then have mm: "m = m0\<lparr>m_state := m'\<rparr>" using m by simp
  from r st ex e3 out mm have
    le: "\<not> output_size < rt_numel rt t" and
    cp: "memcpy output (t_data t) (rt_numel rt t * 4) = Some output'"
    by (auto simp: Let_def split: if_splits option.splits)
  show ?thesis
    using memcpy_Some [OF cp fits] le by (simp add: not_less)
qed


lemma unat_ucast_small: "unat (d :: 64 word) < 2 ^ 32 \<Longrightarrow> unat (ucast d :: 32 word) = unat d"
proof -
  assume "unat d < 2 ^ 32"
  then have "take_bit 32 (unat d) = unat d"
    by (simp add: take_bit_nat_eq_self_iff)
  then show ?thesis
    by (simp add: unsigned_ucast_eq)
qed

lemma allocate_planned_buffers_spans:
  assumes "allocate_planned_buffers rt mm ids s = Some (Ok, s')"
  shows "\<exists>new. planned_spans s' = planned_spans s @ new \<and> length new = length ids \<and>
           (\<forall>i < length ids. \<exists>d. memory_planned_buffer_size mm (ids ! i) = Inr d \<and>
                                   snd (new ! i) = ucast d)"
  using assms
proof (induction ids arbitrary: s)
  case Nil
  then show ?case by simp
next
  case (Cons i ids)
  from Cons.prems obtain d where d: "memory_planned_buffer_size mm i = Inr d"
    by (auto split: sum.splits)
  from Cons.prems d obtain ma where ma: "method_allocator s = Some ma"
    by (auto simp: Let_def split: option.splits)
  obtain buffer ma' where al:
    "allocate (rt_allocate rt) (ucast d) (kDefaultAlignment rt) ma = (buffer, ma')"
    by (cases "allocate (rt_allocate rt) (ucast d) (kDefaultAlignment rt) ma")
  let ?s1 = "s\<lparr>method_allocator := Some ma'\<rparr>"
  let ?s2 = "?s1\<lparr>planned_buffers := planned_buffers ?s1 @ [buffer],
                 planned_spans := planned_spans ?s1 @ [(buffer, ucast d)]\<rparr>"
  have rec: "allocate_planned_buffers rt mm ids ?s2 = Some (Ok, s')"
    using Cons.prems d ma al by (auto simp: Let_def split: if_splits)
  from Cons.IH [OF rec] obtain new where new:
    "planned_spans s' = planned_spans ?s2 @ new" "length new = length ids"
    "\<forall>j < length ids. \<exists>d. memory_planned_buffer_size mm (ids ! j) = Inr d \<and>
                             snd (new ! j) = ucast d"
    by blast
  let ?new = "(buffer, ucast d) # new"
  have "planned_spans s' = planned_spans s @ ?new" using new(1) by simp
  moreover have "length ?new = length (i # ids)" using new(2) by simp
  moreover have "\<forall>j < length (i # ids). \<exists>d. memory_planned_buffer_size mm ((i # ids) ! j) = Inr d \<and>
                             snd (?new ! j) = ucast d"
  proof (intro allI impI)
    fix j assume "j < length (i # ids)"
    then show "\<exists>d. memory_planned_buffer_size mm ((i # ids) ! j) = Inr d \<and> snd (?new ! j) = ucast d"
      using d new(3) by (cases j) auto
  qed
  ultimately show ?case by blast
qed

lemma loadProgram_Ok:
  assumes "loadProgram rt b s = Some (Ok, s')"
  shows "\<exists>prog mm s3. rt_Program_load rt (model_pte b) = Inr prog \<and>
           rt_method_meta rt prog ''forward'' = Inr mm \<and>
           allocate_planned_buffers rt mm (map of_nat [0..<unat (num_memory_planned_buffers mm)])
             (s\<lparr>program := Some prog, planned_buffers := [], planned_spans := []\<rparr>) = Some (Ok, s3) \<and>
           planned_spans s' = planned_spans s3"
  using assms
  by (auto simp: loadProgram_def Let_def
      split: if_splits sum.splits option.splits prod.splits)

text \<open>
  Claim C10, as amended. After every successful \<open>loadProgram\<close>, from any state of the loader, the
  planned spans are exactly as many as the program declares planned buffers, the span at
  position \<open>i\<close> has the length declared for buffer \<open>i\<close> (converted to \<open>size_t\<close> as the
  code does; the same number whenever it fits 32 bits), and the result does not depend
  on what the two sequences held before the call: they are cleared before the buffers
  are allocated, so no span of an earlier load remains.
\<close>

theorem C10_planned_spans_after_load:
  assumes "loadProgram rt b s = Some (Ok, s')"
  shows "\<exists>prog mm. rt_Program_load rt (model_pte b) = Inr prog \<and>
           rt_method_meta rt prog ''forward'' = Inr mm \<and>
           length (planned_spans s') = unat (num_memory_planned_buffers mm) \<and>
           (\<forall>i < unat (num_memory_planned_buffers mm).
              \<exists>d. memory_planned_buffer_size mm (of_nat i) = Inr d \<and>
                  snd (planned_spans s' ! i) = ucast d \<and>
                  (unat d < 2 ^ 32 \<longrightarrow> unat (snd (planned_spans s' ! i)) = unat d)) \<and>
           (\<forall>pb ps. loadProgram rt b (s\<lparr>planned_buffers := pb, planned_spans := ps\<rparr>) = Some (Ok, s'))"
proof -
  from loadProgram_Ok [OF assms] obtain prog mm s3 where
    p: "rt_Program_load rt (model_pte b) = Inr prog" and
    mm: "rt_method_meta rt prog ''forward'' = Inr mm" and
    loop: "allocate_planned_buffers rt mm (map of_nat [0..<unat (num_memory_planned_buffers mm)])
             (s\<lparr>program := Some prog, planned_buffers := [], planned_spans := []\<rparr>) = Some (Ok, s3)" and
    sp: "planned_spans s' = planned_spans s3"
    by blast
  let ?n = "unat (num_memory_planned_buffers mm)"
  from allocate_planned_buffers_spans [OF loop] obtain new where new:
    "planned_spans s3 = new" "length new = ?n"
    "\<forall>i < ?n. \<exists>d. memory_planned_buffer_size mm (map of_nat [0..<?n] ! i) = Inr d \<and>
                    snd (new ! i) = ucast d"
    by auto
  have len: "length (planned_spans s') = ?n" using sp new by simp
  have each: "\<forall>i < ?n. \<exists>d. memory_planned_buffer_size mm (of_nat i) = Inr d \<and>
                  snd (planned_spans s' ! i) = ucast d \<and>
                  (unat d < 2 ^ 32 \<longrightarrow> unat (snd (planned_spans s' ! i)) = unat d)"
  proof (intro allI impI)
    fix i assume i: "i < ?n"
    with new(3) obtain d where "memory_planned_buffer_size mm (map of_nat [0..<?n] ! i) = Inr d"
      "snd (new ! i) = ucast d" by blast
    then show "\<exists>d. memory_planned_buffer_size mm (of_nat i) = Inr d \<and>
                  snd (planned_spans s' ! i) = ucast d \<and>
                  (unat d < 2 ^ 32 \<longrightarrow> unat (snd (planned_spans s' ! i)) = unat d)"
      using i sp new(1) by (auto simp: unat_ucast_small)
  qed
  have init: "initialized s"
    using assms by (auto simp: loadProgram_def split: if_splits)
  have "loadProgram rt b (s\<lparr>planned_buffers := pb, planned_spans := ps\<rparr>) = loadProgram rt b s"
    for pb ps
    using init p mm by (simp add: loadProgram_def Let_def)
  then have indep: "\<forall>pb ps. loadProgram rt b (s\<lparr>planned_buffers := pb, planned_spans := ps\<rparr>) = Some (Ok, s')"
    using assms by simp
  show ?thesis using p mm len each indep by blast
qed


section \<open>The properties on the concrete instances\<close>


lemma isPowerOf2_4: "isPowerOf2 4"
  by (simp add: isPowerOf2_def upt_rec)

lemma two_input_meta_simps:
  "num_memory_planned_buffers (two_input_meta b0 b1 c) = 2"
  "memory_planned_buffer_size (two_input_meta b0 b1 c) 0 = Inr 16"
  "memory_planned_buffer_size (two_input_meta b0 b1 c) 1 = Inr 48"
  "input_tensor_meta (two_input_meta b0 b1 c) 0 = Inr \<lparr>sizes = [1], dim_order = [0], nbytes = b0\<rparr>"
  "input_tensor_meta (two_input_meta b0 b1 c) 1 = Inr \<lparr>sizes = [1], dim_order = [0], nbytes = b1\<rparr>"
  "input_tensor_meta (two_input_meta b0 b1 c) 2 = Inl c"
  by (simp_all add: two_input_meta_def)

lemmas loader_eval =
  loadProgram_def initialize_def ProgramLoader_new_def default_build_def
  stub_runtime_def two_input_meta_simps upt_rec allocate_def MemoryAllocator_allocate_def
  ETMemoryAllocator_new_def MemoryAllocator_new_def alignPointer_def isPowerOf2_4 Let_def

lemma loaded_on_stub:
  "loaded_on (stub_runtime (two_input_meta b0 b1 c) bind out) =
     \<lparr>initialized = True,
      method_allocator = Some
        \<lparr>base = \<lparr>m_begin = 0x20000000, m_end = 0x20004000, m_cur = 0x20000040, m_size = 16384\<rparr>,
         used = 64\<rparr>,
      temp_allocator = Some
        \<lparr>base = \<lparr>m_begin = 0x20004000, m_end = 0x20004800, m_cur = 0x20004000, m_size = 2048\<rparr>,
         used = 0\<rparr>,
      memory_manager = True,
      planned_memory = Some [(0x20000000, 16), (0x20000010, 48)],
      program = Some (),
      method_res = Some (Inr \<lparr>method_meta = two_input_meta b0 b1 c, m_state = []\<rparr>),
      planned_buffers = [0x20000000, 0x20000010],
      planned_spans = [(0x20000000, 16), (0x20000010, 48)],
      sizes_storage = [[], []], dim_order_storage = [[], []], tensor_impls = [None, None],
      runtime_calls = [Call_runtime_init, Call_load_method]\<rparr>"
  by (simp add: loaded_on_def loader_eval)

lemma adder_reloaded_eq:
  "loadProgram adder_runtime default_build adder_loaded = Some (Ok, adder_reloaded) \<and>
   planned_spans adder_reloaded = [(0x20000040, 16), (0x20000050, 48)]"
  by (simp add: adder_reloaded_def adder_loaded_def adder_runtime_def loaded_on_stub)
     (simp add: loader_eval)


lemma not_2_le_1: "\<not> (2 :: 32 word) \<le> 1"
  by (simp add: word_le_nat_alt)

lemmas run_eval =
  runInference_def createInputTensor_def isLoaded_def memcpy_def calls_since_def
  stub_runtime_def two_input_meta_simps Let_def not_2_le_1

text \<open>
  Claim C9 on the loader after \<open>initialize\<close> alone.
\<close>

theorem C9_witness:
  "\<not> isLoaded (initialize default_build ProgramLoader_new :: (unit, float list) ProgramLoader) \<and>
   runInference adder_runtime [0x40000000] [0x40400000] 1 [0] 1
     (initialize default_build ProgramLoader_new) =
   Some (Fail InvalidState, initialize default_build ProgramLoader_new, [0])"
proof -
  have h: "\<not> isLoaded (initialize default_build ProgramLoader_new :: (unit, float list) ProgramLoader)"
    by (simp add: isLoaded_def initialize_def ProgramLoader_new_def)
  show ?thesis
    using h C9_runInference_not_loaded [OF h] by simp
qed

text \<open>
  The amended claim C4 on the loaded addition model, at index 2.
\<close>

theorem C4_witness:
  "method_res adder_loaded =
     Some (Inr \<lparr>method_meta = two_input_meta 4 4 InvalidArgument, m_state = []\<rparr>) \<and>
   (2 :: size_t) \<le> 2 \<and>
   createInputTensor adder_runtime [0x40000000] 1 2 adder_loaded =
     (Fail InvalidArgument, adder_loaded)"
proof -
  have m: "method_res adder_loaded =
      Some (Inr \<lparr>method_meta = two_input_meta 4 4 InvalidArgument, m_state = []\<rparr>)"
    by (simp add: adder_loaded_def adder_runtime_def loaded_on_stub)
  have i: "(2 :: size_t) \<le> 2" by simp
  show ?thesis
    using m C4_createInputTensor_index_ge_2 [OF m i, of adder_runtime "[0x40000000]" 1]
    by (simp add: two_input_meta_simps)
qed

text \<open>
  Claim C4 as stated fails where the runtime answers the metadata query for an undeclared
  input with a code other than \<open>InvalidArgument\<close>: \<open>createInputTensor\<close> at index 2 returns
  that code, since it asks for the metadata before it checks the index.
\<close>

theorem C4_counterexample:
  "isLoaded other_code_loaded \<and> (2 :: size_t) \<le> 2 \<and>
   createInputTensor other_code_runtime [0x40000000] 1 2 other_code_loaded =
     (Fail (Opaque 1), other_code_loaded) \<and>
   Fail (Opaque 1) \<noteq> Fail InvalidArgument"
  unfolding other_code_loaded_def other_code_runtime_def loaded_on_stub
  by (simp add: run_eval)

text \<open>
  Claim C5 as stated fails where the first input matches, the second does not, and binding
  the first input fails with a code of the runtime's own: \<open>runInference\<close> returns that
  code, not \<open>InvalidArgument\<close>.
\<close>

theorem C5_counterexample:
  "isLoaded failing_bind_loaded \<and>
   input_tensor_meta (two_input_meta 4 8 InvalidArgument) 0 =
     Inr \<lparr>sizes = [1], dim_order = [0], nbytes = 4\<rparr> \<and>
   input_tensor_meta (two_input_meta 4 8 InvalidArgument) 1 =
     Inr \<lparr>sizes = [1], dim_order = [0], nbytes = 8\<rparr> \<and>
   (8 :: size_t) \<noteq> 1 * 4 \<and>
   map_option fst (runInference failing_bind_runtime [0x40000000] [0x40400000] 1 [0] 1
     failing_bind_loaded) = Some (Fail (Opaque 1)) \<and>
   Fail (Opaque 1) \<noteq> Fail InvalidArgument"
  unfolding failing_bind_loaded_def failing_bind_runtime_def loaded_on_stub
  by (simp add: run_eval)

text \<open>
  The amended claim C5 on a method whose second input is declared with 8 bytes, called
  with one element per input: on a runtime that binds the first input the status is
  \<open>InvalidArgument\<close>, on one whose \<open>set_input\<close> fails it is that failure.
\<close>

theorem C5_witness:
  "method_res uneven_loaded =
     Some (Inr \<lparr>method_meta = two_input_meta 4 8 InvalidArgument, m_state = []\<rparr>) \<and>
   (8 :: size_t) \<noteq> 1 * 4 \<and>
   length (sizes_storage uneven_loaded) = 2 \<and> length (dim_order_storage uneven_loaded) = 2 \<and>
   (\<exists>s'. runInference uneven_runtime [0x40000000] [0x40400000] 1 [0] 1 uneven_loaded =
           Some (Fail InvalidArgument, s', [0]) \<and>
         Call_execute \<notin> set (calls_since uneven_loaded s') \<and>
         method_allocator s' = method_allocator uneven_loaded \<and>
         temp_allocator s' = temp_allocator uneven_loaded) \<and>
   (\<exists>s'. runInference failing_bind_runtime [0x40000000] [0x40400000] 1 [0] 1
           failing_bind_loaded = Some (Fail (Opaque 1), s', [0]) \<and>
         Call_execute \<notin> set (calls_since failing_bind_loaded s') \<and>
         method_allocator s' = method_allocator failing_bind_loaded \<and>
         temp_allocator s' = temp_allocator failing_bind_loaded)"
proof -
  let ?m = "\<lparr>method_meta = two_input_meta 4 8 InvalidArgument, m_state = [] :: float list\<rparr>"
  let ?t0 = "\<lparr>sizes = [1], dim_order = [0], nbytes = 4 :: size_t\<rparr>"
  let ?t1 = "\<lparr>sizes = [1], dim_order = [0], nbytes = 8 :: size_t\<rparr>"
  have m: "method_res uneven_loaded = Some (Inr ?m)"
    by (simp add: uneven_loaded_def uneven_runtime_def loaded_on_stub)
  have mf: "method_res failing_bind_loaded = Some (Inr ?m)"
    by (simp add: failing_bind_loaded_def failing_bind_runtime_def loaded_on_stub)
  have t0: "input_tensor_meta (method_meta ?m) 0 = Inr ?t0"
    by (simp add: two_input_meta_simps)
  have t1: "input_tensor_meta (method_meta ?m) 1 = Inr ?t1"
    by (simp add: two_input_meta_simps)
  have mis: "nbytes ?t0 \<noteq> (1 :: size_t) * 4 \<or> nbytes ?t1 \<noteq> (1 :: size_t) * 4"
    by simp
  have st: "length (sizes_storage uneven_loaded) = 2"
    "length (dim_order_storage uneven_loaded) = 2"
    by (simp_all add: uneven_loaded_def uneven_runtime_def loaded_on_stub)
  have stf: "length (sizes_storage failing_bind_loaded) = 2"
    "length (dim_order_storage failing_bind_loaded) = 2"
    by (simp_all add: failing_bind_loaded_def failing_bind_runtime_def loaded_on_stub)
  note th = C5_size_mismatch_no_execution [OF m t0 t1 mis st,
      of uneven_runtime "[0x40000000]" "[0x40400000]" "[0]" 1]
  note thf = C5_size_mismatch_no_execution [OF mf t0 t1 mis stf,
      of failing_bind_runtime "[0x40000000]" "[0x40400000]" "[0]" 1]
  have e: "fst (rt_set_input uneven_runtime ?m v 0) = Ok" for v
    by (simp add: uneven_runtime_def stub_runtime_def)
  have ef: "fst (rt_set_input failing_bind_runtime ?m v 0) = Fail (Opaque 1)" for v
    by (simp add: failing_bind_runtime_def stub_runtime_def)
  show ?thesis
    using m st th thf by (simp add: e ef)
qed

text \<open>
  Claim C6 on a runtime whose output tensor has two elements, with room for one.
\<close>

theorem C6_witness:
  "(1 :: size_t) <
     rt_numel wide_runtime
       \<lparr>t_type = Float, t_dim = 1, t_sizes = [2], t_data = [0x40A00000, 0x40A00000],
        t_dim_order = [0]\<rparr> \<and>
   (\<exists>s'. runInference wide_runtime [0x40000000] [0x40400000] 1 [0] 1 wide_loaded =
           Some (Fail InvalidArgument, s', [0]))"
proof -
  let ?rt = wide_runtime
  let ?s1 = "snd (createInputTensor ?rt [0x40000000] 1 0 wide_loaded)"
  let ?s2 = "snd (createInputTensor ?rt [0x40400000] 1 1 ?s1)"
  let ?m = "\<lparr>method_meta = two_input_meta 4 4 InvalidArgument, m_state = [] :: float list\<rparr>"
  let ?ma = "\<lparr>base = \<lparr>m_begin = 0x20000000, m_end = 0x20004000, m_cur = 0x20000040,
                       m_size = 16384\<rparr>, used = 64\<rparr>"
  let ?ta = "\<lparr>base = \<lparr>m_begin = 0x20004000, m_end = 0x20004800, m_cur = 0x20004000,
                       m_size = 2048\<rparr>, used = 0\<rparr>"
  let ?t = "\<lparr>t_type = Float, t_dim = 1, t_sizes = [2], t_data = [0x40A00000, 0x40A00000],
             t_dim_order = [0]\<rparr>"
  have c0: "createInputTensor ?rt [0x40000000] 1 0 wide_loaded = (Ok, ?s1)"
    unfolding wide_loaded_def wide_runtime_def loaded_on_stub
    by (simp add: run_eval)
  have c1: "createInputTensor ?rt [0x40400000] 1 1 ?s1 = (Ok, ?s2)"
    unfolding wide_loaded_def wide_runtime_def loaded_on_stub
    by (simp add: run_eval)
  have m: "method_res ?s2 = Some (Inr ?m)"
    unfolding wide_loaded_def wide_runtime_def loaded_on_stub
    by (simp add: run_eval)
  have a1: "method_allocator ?s2 = Some ?ma"
    unfolding wide_loaded_def wide_runtime_def loaded_on_stub
    by (simp add: run_eval)
  have a2: "temp_allocator ?s2 = Some ?ta"
    unfolding wide_loaded_def wide_runtime_def loaded_on_stub
    by (simp add: run_eval)
  have ex: "rt_execute ?rt ?m (?ma, ?ta) = (Ok, [0x40A00000, 0x40A00000], ?ma, ?ta)"
    by (simp add: wide_runtime_def stub_runtime_def)
  have out: "rt_get_output ?rt (?m\<lparr>m_state := [0x40A00000, 0x40A00000]\<rparr>) 0 = TensorValue ?t"
    by (simp add: wide_runtime_def stub_runtime_def)
  have small: "(1 :: size_t) < rt_numel ?rt ?t"
    by (simp add: wide_runtime_def stub_runtime_def)
  show ?thesis
    using small C6_output_buffer_too_small [OF c0 c1 m a1 a2 ex out small, of "[0]"]
    by simp
qed

text \<open>
  Claim C7 on the addition model with an output buffer of two elements: the first becomes
  5.0, the second stays.
\<close>

theorem C7_witness:
  "(\<exists>s'. runInference adder_runtime [0x40000000] [0x40400000] 1 [0, 7] 2 adder_loaded =
           Some (Ok, s', [0x40A00000, 7]) \<and>
         method_res s' =
           Some (Inr \<lparr>method_meta = two_input_meta 4 4 InvalidArgument,
                       m_state = [0x40A00000]\<rparr>)) \<and>
   rt_get_output adder_runtime
     \<lparr>method_meta = two_input_meta 4 4 InvalidArgument, m_state = [0x40A00000]\<rparr> 0 =
     TensorValue \<lparr>t_type = Float, t_dim = 1, t_sizes = [1], t_data = [0x40A00000],
                  t_dim_order = [0]\<rparr> \<and>
   rt_numel adder_runtime
     \<lparr>t_type = Float, t_dim = 1, t_sizes = [1], t_data = [0x40A00000], t_dim_order = [0]\<rparr> = 1 \<and>
   take 1 [0x40A00000, 7 :: float] = take 1 [0x40A00000] \<and>
   drop 1 [0x40A00000, 7 :: float] = drop 1 [0, 7]"
proof -
  let ?m = "\<lparr>method_meta = two_input_meta 4 4 InvalidArgument, m_state = [0x40A00000 :: float]\<rparr>"
  let ?t = "\<lparr>t_type = Float, t_dim = 1, t_sizes = [1], t_data = [0x40A00000 :: float],
             t_dim_order = [0]\<rparr>"
  have "\<exists>s'. runInference adder_runtime [0x40000000] [0x40400000] 1 [0, 7] 2 adder_loaded =
           Some (Ok, s', [0x40A00000, 7]) \<and> method_res s' = Some (Inr ?m)"
    unfolding adder_loaded_def adder_runtime_def loaded_on_stub
    by (simp add: run_eval)
  then obtain s' where
    run: "runInference adder_runtime [0x40000000] [0x40400000] 1 [0, 7] 2 adder_loaded =
           Some (Ok, s', [0x40A00000, 7])" and
    m: "method_res s' = Some (Inr ?m)"
    by blast
  have out: "rt_get_output adder_runtime ?m 0 = TensorValue ?t"
    by (simp add: adder_runtime_def stub_runtime_def)
  have n: "rt_numel adder_runtime ?t = 1"
    by (simp add: adder_runtime_def stub_runtime_def)
  have fits: "4 * unat (rt_numel adder_runtime ?t) < 2 ^ 32"
    by (simp add: n)
  show ?thesis
    using run m out n C7_output_copy [OF run m out fits] by auto
qed

lemma oversized_meta_simps:
  "num_memory_planned_buffers oversized_meta = 1"
  "memory_planned_buffer_size oversized_meta 0 = Inr 0x100000010"
  by (simp_all add: oversized_meta_def)

text \<open>
  Claim C10 as stated fails for a declared size that does not fit \<open>size_t\<close>: a buffer
  declared with \<open>0x100000010\<close> bytes is allocated with 16 bytes, the load succeeds, and the
  span has length 16.
\<close>

theorem C10_counterexample:
  "loadProgram oversized_runtime default_build (initialize default_build ProgramLoader_new) =
     Some (Ok, oversized_loaded) \<and>
   rt_method_meta oversized_runtime () ''forward'' = Inr oversized_meta \<and>
   num_memory_planned_buffers oversized_meta = 1 \<and>
   memory_planned_buffer_size oversized_meta 0 = Inr 0x100000010 \<and>
   planned_spans oversized_loaded = [(0x20000000, 16)] \<and>
   unat (snd (planned_spans oversized_loaded ! 0)) \<noteq> unat (0x100000010 :: 64 word)"
  by (simp add: oversized_loaded_def oversized_runtime_def loaded_on_def loadProgram_def
      initialize_def ProgramLoader_new_def default_build_def stub_runtime_def
      oversized_meta_simps upt_rec allocate_def MemoryAllocator_allocate_def
      ETMemoryAllocator_new_def MemoryAllocator_new_def alignPointer_def isPowerOf2_4 Let_def)

text \<open>
  The amended claim C10 on a repeated \<open>loadProgram\<close>: the two spans of the first load are replaced by
  the two of the second.
\<close>

theorem C10_witness:
  "loadProgram adder_runtime default_build adder_loaded = Some (Ok, adder_reloaded) \<and>
   planned_spans adder_loaded = [(0x20000000, 16), (0x20000010, 48)] \<and>
   planned_spans adder_reloaded = [(0x20000040, 16), (0x20000050, 48)] \<and>
   (\<exists>mm. rt_method_meta adder_runtime () ''forward'' = Inr mm \<and>
         length (planned_spans adder_reloaded) = unat (num_memory_planned_buffers mm))"
proof -
  have h: "loadProgram adder_runtime default_build adder_loaded = Some (Ok, adder_reloaded)"
    using adder_reloaded_eq by simp
  have o: "planned_spans adder_loaded = [(0x20000000, 16), (0x20000010, 48)]"
    by (simp add: adder_loaded_def adder_runtime_def loaded_on_stub)
  show ?thesis
    using h o adder_reloaded_eq C10_planned_spans_after_load [OF h] by auto
qed


end
